theory Spec2Isabelle
  imports Complex_Main "HOL-Library.Log_Nat"
begin

section \<open>KinoPy: the video builder and its command line\<close>

text \<open>
  The development embeds \<^verbatim>\<open>video_builder.py\<close> and \<^verbatim>\<open>main.py\<close>.

  Numbers. Python's \<^verbatim>\<open>int\<close> is \<^typ>\<open>int\<close>. A Python \<^verbatim>\<open>float\<close> is a binary64 number;
  a finite one is carried by the rational it holds (\<^typ>\<open>rat\<close>), and every operation of the
  program on floats that decides a size or a time (\<^verbatim>\<open>int / int\<close>, \<^verbatim>\<open>int * float\<close>,
  \<^verbatim>\<open>float - float\<close>, \<^verbatim>\<open>round\<close>) rounds its exact result to the nearest binary64 number,
  ties to the even significand, as the machine does. Infinities appear only as the
  overflow of a product, which \<^verbatim>\<open>round\<close> then refuses; times and durations are finite.
  The functions of the \<^verbatim>\<open>math\<close> module (\<^verbatim>\<open>atan2\<close>, \<^verbatim>\<open>cos\<close>, \<^verbatim>\<open>sin\<close>, \<^verbatim>\<open>radians\<close>, \<^verbatim>\<open>pi\<close>)
  are taken from the environment, and the arithmetic on their results, which no
  property below depends on, is left exact.

  Libraries. MoviePy clips and Pillow images are values built by library calls. A clip
  is the term of the calls that built it; the attributes the program reads back
  (\<^verbatim>\<open>size\<close>, \<^verbatim>\<open>duration\<close>, \<^verbatim>\<open>start\<close>, \<^verbatim>\<open>audio is not None\<close>) are functions on that term.
  Decoding, encoding and text measurement are services of the environment.
\<close>

subsection \<open>Python values\<close>

text \<open>
  \<open>ResizeError\<close> is what MoviePy's resizer raises for a size that is not positive (a
  \<^verbatim>\<open>ValueError\<close> with Pillow as the resizer).
\<close>

datatype error =
    ValueError string
  | TypeError string
  | ZeroDivisionError
  | OverflowError
  | ResizeError
  | IOError string

type_synonym Size = "int \<times> int"
type_synonym Point = "int \<times> int"

text \<open>\<^verbatim>\<open>Union[str, int]\<close>, one axis of a position, and \<^verbatim>\<open>Position\<close> itself.\<close>

datatype axis = AxisStr string | AxisInt int

datatype Position = PosStr string | PosPair axis axis

text \<open>A colour: a name, an RGB triple or an RGBA quadruple.\<close>

datatype paint = Named string | RGB int int int | RGBA int int int int

text \<open>The next computation runs on the value of the one before, unless that raised.\<close>

definition and_then :: "error + 'a \<Rightarrow> ('a \<Rightarrow> error + 'b) \<Rightarrow> error + 'b" where
  "and_then r f = (case r of Inl e \<Rightarrow> Inl e | Inr x \<Rightarrow> f x)"

subsection \<open>Binary64 arithmetic\<close>

text \<open>To the nearest integer, a tie to the even one.\<close>

definition round_half_even :: "rat \<Rightarrow> int" where
  "round_half_even x =
     (let f = \<lfloor>x\<rfloor>; d = x - of_int f
      in if d < 1 / 2 then f
         else if 1 / 2 < d then f + 1
         else if even f then f else f + 1)"

definition pow2 :: "int \<Rightarrow> rat" where
  "pow2 k = (if 0 \<le> k then 2 ^ nat k else 1 / 2 ^ nat (- k))"

text \<open>The exponent e of a positive rational x: 2^e \<le> x < 2^(e + 1).\<close>

definition ilog2 :: "rat \<Rightarrow> int" where
  "ilog2 x = (if 1 \<le> x then bitlen \<lfloor>x\<rfloor> - 1 else - bitlen (\<lceil>1 / x\<rceil> - 1))"

text \<open>
  The binary64 number nearest to x, a tie to the even significand: 53 bits of
  significand at the exponent of x, and below 2^(-1022) the fixed step 2^(-1074) of the
  subnormal numbers. The exponent is not bounded above here; a result of magnitude
  2^1024 or more is an overflow, which each operation treats in its own way.
\<close>

definition round64 :: "rat \<Rightarrow> rat" where
  "round64 x =
     (if x = 0 then 0
      else
        let a = \<bar>x\<bar>;
            q = max (ilog2 a) (- 1022) - 52;
            m = round_half_even (a / pow2 q)
        in sgn x * of_int m * pow2 q)"

text \<open>A binary64 number is finite when its magnitude is below 2^1024.\<close>

definition finite64 :: "rat \<Rightarrow> bool" where
  "finite64 x = (x = 0 \<or> ilog2 \<bar>x\<bar> < 1024)"

text \<open>
  \<^verbatim>\<open>a / b\<close> on two \<^verbatim>\<open>int\<close>: the quotient correctly rounded, \<^verbatim>\<open>ZeroDivisionError\<close> for a
  zero divisor, \<^verbatim>\<open>OverflowError\<close> for a quotient too large for a float.
\<close>

definition true_div :: "int \<Rightarrow> int \<Rightarrow> error + rat" where
  "true_div a b =
     (if b = 0 then Inl ZeroDivisionError
      else
        let r = round64 (of_int a / of_int b)
        in if finite64 r then Inr r else Inl OverflowError)"

text \<open>The conversion of an \<^verbatim>\<open>int\<close> operand to \<^verbatim>\<open>float\<close>.\<close>

definition float_of_int :: "int \<Rightarrow> error + rat" where
  "float_of_int n =
     (let r = round64 (of_int n)
      in if finite64 r then Inr r else Inl OverflowError)"

text \<open>
  \<^verbatim>\<open>x * y\<close> and \<^verbatim>\<open>x - y\<close> on two finite floats. A product that is not finite stands for
  the infinity the machine returns.
\<close>

definition fl_mul :: "rat \<Rightarrow> rat \<Rightarrow> rat" where
  "fl_mul x y = round64 (x * y)"

definition fl_sub :: "rat \<Rightarrow> rat \<Rightarrow> rat" where
  "fl_sub x y = round64 (x - y)"

text \<open>
  \<^verbatim>\<open>round(x)\<close> of Python 3 on a float: to the nearest integer, a tie to the even one;
  \<^verbatim>\<open>OverflowError\<close> on an infinity.
\<close>

definition py_round :: "rat \<Rightarrow> error + int" where
  "py_round x = (if finite64 x then Inr (round_half_even x) else Inl OverflowError)"

text \<open>\<^verbatim>\<open>int(x)\<close> on a float: truncation towards zero.\<close>

definition py_trunc :: "rat \<Rightarrow> int" where
  "py_trunc x = (if 0 \<le> x then \<lfloor>x\<rfloor> else \<lceil>x\<rceil>)"

subsection \<open>Pillow images\<close>

datatype draw_op =
    multiline_text Point string int paint string
  | line Point Point paint int
  | polygon "Point list" paint

record image =
  im_size :: Size
  im_fill :: paint
  im_ops :: "draw_op list"

definition Image_new :: "Size \<Rightarrow> paint \<Rightarrow> image" where
  "Image_new sz c = \<lparr>im_size = sz, im_fill = c, im_ops = []\<rparr>"

definition draw :: "image \<Rightarrow> draw_op \<Rightarrow> image" where
  "draw img d = img\<lparr>im_ops := im_ops img @ [d]\<rparr>"

subsection \<open>MoviePy clips\<close>

text \<open>
  \<open>ImageClip_rgb img d\<close> is \<^verbatim>\<open>mp.ImageClip(rgb).set_duration(d)\<close> for the colour planes of
  \<open>img\<close>, \<open>ImageClip_alpha img d\<close> the mask clip of its alpha plane, and
  \<open>ImageClip_frame c t d\<close> is \<^verbatim>\<open>mp.ImageClip(c.get_frame(t)).set_duration(d)\<close>.
  \<open>VideoFileClip p sz d a\<close> is the decoded file \<open>p\<close> with its size, duration and
  whether it carries audio. \<open>set_audio_of c s\<close> is \<^verbatim>\<open>c.set_audio(s.audio)\<close>.
\<close>

datatype clip =
    ImageClip_rgb image rat
  | ImageClip_alpha image rat
  | ImageClip_frame clip rat rat
  | VideoFileClip string Size rat bool
  | ColorClip Size paint rat
  | subclip clip rat "rat option"
  | resize clip Size
  | fadein clip rat
  | fadeout clip rat
  | set_mask clip clip
  | set_fps clip int
  | set_start clip rat
  | set_position clip Position
  | set_audio_of clip clip
  | CompositeVideoClip "clip list" Size
  | concatenate_videoclips "clip list"

fun max_list :: "rat list \<Rightarrow> rat" where
  "max_list [] = 0"
| "max_list [x] = x"
| "max_list (x # y # ys) = max x (max_list (y # ys))"

fun max_list_int :: "int list \<Rightarrow> int" where
  "max_list_int [] = 0"
| "max_list_int [x] = x"
| "max_list_int (x # y # ys) = max x (max_list_int (y # ys))"

text \<open>\<^verbatim>\<open>clip.start\<close>: 0 unless \<^verbatim>\<open>set_start\<close> moved the clip.\<close>

fun clip_start :: "clip \<Rightarrow> rat" where
  "clip_start (set_start c t) = t"
| "clip_start (resize c sz) = clip_start c"
| "clip_start (fadein c d) = clip_start c"
| "clip_start (fadeout c d) = clip_start c"
| "clip_start (set_mask c m) = clip_start c"
| "clip_start (set_fps c n) = clip_start c"
| "clip_start (set_position c p) = clip_start c"
| "clip_start (set_audio_of c s) = clip_start c"
| "clip_start c = 0"

text \<open>
  \<^verbatim>\<open>clip.duration\<close>. Modelled from the spec: \<^verbatim>\<open>concatenate_videoclips\<close> is MoviePy's;
  its result lasts the sum of the durations of its clips ("total timeline duration is the
  sum of all entry durations"). A composite lasts until the last of its layers ends, a
  trimmed clip from its start time to its end time (to the end of the source without one).
\<close>

fun clip_duration :: "clip \<Rightarrow> rat" where
  "clip_duration (ImageClip_rgb img d) = d"
| "clip_duration (ImageClip_alpha img d) = d"
| "clip_duration (ImageClip_frame c t d) = d"
| "clip_duration (VideoFileClip p sz d a) = d"
| "clip_duration (ColorClip sz col d) = d"
| "clip_duration (subclip c s e) = (case e of None \<Rightarrow> clip_duration c - s | Some e' \<Rightarrow> e' - s)"
| "clip_duration (resize c sz) = clip_duration c"
| "clip_duration (fadein c d) = clip_duration c"
| "clip_duration (fadeout c d) = clip_duration c"
| "clip_duration (set_mask c m) = clip_duration c"
| "clip_duration (set_fps c n) = clip_duration c"
| "clip_duration (set_start c t) = clip_duration c"
| "clip_duration (set_position c p) = clip_duration c"
| "clip_duration (set_audio_of c s) = clip_duration c"
| "clip_duration (CompositeVideoClip cs sz) =
     max_list (map (\<lambda>c. clip_start c + clip_duration c) cs)"
| "clip_duration (concatenate_videoclips cs) = sum_list (map clip_duration cs)"

text \<open>
  \<^verbatim>\<open>clip.size\<close>, as (width, height). A frame has the size of the clip it is taken from;
  a composite has the size it is given; a concatenation (method "compose") is as wide as
  its widest and as high as its highest clip.
\<close>

fun clip_size :: "clip \<Rightarrow> Size" where
  "clip_size (ImageClip_rgb img d) = im_size img"
| "clip_size (ImageClip_alpha img d) = im_size img"
| "clip_size (ImageClip_frame c t d) = clip_size c"
| "clip_size (VideoFileClip p sz d a) = sz"
| "clip_size (ColorClip sz col d) = sz"
| "clip_size (subclip c s e) = clip_size c"
| "clip_size (resize c sz) = sz"
| "clip_size (fadein c d) = clip_size c"
| "clip_size (fadeout c d) = clip_size c"
| "clip_size (set_mask c m) = clip_size c"
| "clip_size (set_fps c n) = clip_size c"
| "clip_size (set_start c t) = clip_size c"
| "clip_size (set_position c p) = clip_size c"
| "clip_size (set_audio_of c s) = clip_size c"
| "clip_size (CompositeVideoClip cs sz) = sz"
| "clip_size (concatenate_videoclips cs) =
     (max_list_int (map (\<lambda>c. fst (clip_size c)) cs), max_list_int (map (\<lambda>c. snd (clip_size c)) cs))"

text \<open>\<^verbatim>\<open>clip.audio is not None\<close>.\<close>

fun has_audio :: "clip \<Rightarrow> bool" where
  "has_audio (ImageClip_rgb img d) = False"
| "has_audio (ImageClip_alpha img d) = False"
| "has_audio (ImageClip_frame c t d) = False"
| "has_audio (VideoFileClip p sz d a) = a"
| "has_audio (ColorClip sz col d) = False"
| "has_audio (subclip c s e) = has_audio c"
| "has_audio (resize c sz) = has_audio c"
| "has_audio (fadein c d) = has_audio c"
| "has_audio (fadeout c d) = has_audio c"
| "has_audio (set_mask c m) = has_audio c"
| "has_audio (set_fps c n) = has_audio c"
| "has_audio (set_start c t) = has_audio c"
| "has_audio (set_position c p) = has_audio c"
| "has_audio (set_audio_of c s) = has_audio s"
| "has_audio (CompositeVideoClip cs sz) = list_ex has_audio cs"
| "has_audio (concatenate_videoclips cs) = list_ex has_audio cs"

text \<open>\<^verbatim>\<open>clip.pos\<close>: the position rule last set, MoviePy's default being the top-left corner.\<close>

fun clip_pos :: "clip \<Rightarrow> Position" where
  "clip_pos (set_position c p) = p"
| "clip_pos (resize c sz) = clip_pos c"
| "clip_pos (fadein c d) = clip_pos c"
| "clip_pos (fadeout c d) = clip_pos c"
| "clip_pos (set_mask c m) = clip_pos c"
| "clip_pos (set_fps c n) = clip_pos c"
| "clip_pos (set_start c t) = clip_pos c"
| "clip_pos (set_audio_of c s) = clip_pos c"
| "clip_pos c = PosPair (AxisInt 0) (AxisInt 0)"

text \<open>
  Modelled from the spec: the compositor that places a layer is MoviePy's. On one axis
  \<^verbatim>\<open>center\<close> puts the layer at (canvas dimension - layer dimension) / 2, truncated to an
  integer, and an integer puts its top-left corner at that pixel; the bare string
  \<^verbatim>\<open>center\<close> stands for (center, center). Any other string is not a position rule.
\<close>

definition resolve_axis :: "axis \<Rightarrow> int \<Rightarrow> int \<Rightarrow> int option" where
  "resolve_axis a canvas_dim content_dim =
     (case a of
        AxisInt v \<Rightarrow> Some v
      | AxisStr s \<Rightarrow>
          if s = ''center'' then Some (py_trunc (of_int (canvas_dim - content_dim) / 2))
          else None)"

definition resolve_position :: "Position \<Rightarrow> Size \<Rightarrow> Size \<Rightarrow> (int \<times> int) option" where
  "resolve_position p canvas content =
     (let (ax, ay) = (case p of PosStr s \<Rightarrow> (AxisStr s, AxisStr s) | PosPair x y \<Rightarrow> (x, y))
      in case (resolve_axis ax (fst canvas) (fst content),
               resolve_axis ay (snd canvas) (snd content)) of
           (Some x, Some y) \<Rightarrow> Some (x, y)
         | _ \<Rightarrow> None)"

text \<open>Where a composite of the given size draws the layer \<open>c\<close>.\<close>

definition layer_offset :: "Size \<Rightarrow> clip \<Rightarrow> (int \<times> int) option" where
  "layer_offset canvas c = resolve_position (clip_pos c) canvas (clip_size c)"

subsection \<open>The letterbox resizer\<close>

text \<open>\<^verbatim>\<open>int(round(n * scale))\<close> for an \<^verbatim>\<open>int\<close> n and a float scale.\<close>

definition scaled_dim :: "int \<Rightarrow> rat \<Rightarrow> error + int" where
  "scaled_dim n scale = and_then (float_of_int n) (\<lambda>f. py_round (fl_mul f scale))"

text \<open>
  The first three statements of \<^verbatim>\<open>_resize_and_letterbox\<close>: both quotients, their
  minimum, then the two rounded products, in this order.
\<close>

definition letterbox_new_size :: "Size \<Rightarrow> Size \<Rightarrow> error + Size" where
  "letterbox_new_size src target =
     (let (cw, ch) = src;
          (target_w, target_h) = target
      in and_then (true_div target_w cw) (\<lambda>a.
         and_then (true_div target_h ch) (\<lambda>b.
           let scale = min a b
           in and_then (scaled_dim cw scale) (\<lambda>new_w.
              and_then (scaled_dim ch scale) (\<lambda>new_h.
                Inr (new_w, new_h))))))"

text \<open>
  \<^verbatim>\<open>clip.resize(newsize=...)\<close>. MoviePy computes the first resized frame at once, and its
  resizer refuses a size with a dimension that is not positive.
\<close>

definition clip_resize :: "clip \<Rightarrow> Size \<Rightarrow> error + clip" where
  "clip_resize c newsize =
     (if fst newsize \<le> 0 \<or> snd newsize \<le> 0 then Inl ResizeError else Inr (resize c newsize))"

text \<open>\<^verbatim>\<open>_resize_and_letterbox(clip, target_size, bg_color)\<close>.\<close>

definition resize_and_letterbox :: "clip \<Rightarrow> Size \<Rightarrow> paint \<Rightarrow> error + clip" where
  "resize_and_letterbox clip target_size bg_color =
     and_then (letterbox_new_size (clip_size clip) target_size) (\<lambda>new_size.
     and_then (clip_resize clip new_size) (\<lambda>resized.
       if new_size = target_size then Inr resized
       else
         let bg = ColorClip target_size bg_color (clip_duration clip);
             composed =
               CompositeVideoClip [bg, set_position resized (PosStr ''center'')] target_size
         in Inr (if has_audio clip then set_audio_of composed clip else composed)))"

subsection \<open>The environment\<close>

text \<open>
  The services the program calls and does not implement: Pillow's text measurement with
  the font that \<^verbatim>\<open>_load_font(fontsize)\<close> returns (text, font size, alignment to the box
  (x0, y0, x1, y1)), MoviePy's decoder (a path to size, duration and presence of audio, or
  nothing when the file cannot be read), MoviePy's encoder (an error or none), and the
  \<^verbatim>\<open>math\<close> module.
\<close>

record env =
  multiline_textbbox :: "string \<Rightarrow> int \<Rightarrow> string \<Rightarrow> int \<times> int \<times> int \<times> int"
  decode :: "string \<Rightarrow> (Size \<times> rat \<times> bool) option"
  encode :: "string \<Rightarrow> clip \<Rightarrow> int \<Rightarrow> error option"
  math_atan2 :: "rat \<Rightarrow> rat \<Rightarrow> rat"
  math_radians :: "rat \<Rightarrow> rat"
  math_pi :: rat
  math_cos :: "rat \<Rightarrow> rat"
  math_sin :: "rat \<Rightarrow> rat"

subsection \<open>Images and image clips\<close>

text \<open>\<^verbatim>\<open>_pil_rgba_to_imageclip\<close>; every image of the program is created in mode RGBA.\<close>

definition pil_rgba_to_imageclip :: "image \<Rightarrow> rat \<Rightarrow> clip" where
  "pil_rgba_to_imageclip img duration =
     (let base = ImageClip_rgb img duration;
          mask = ImageClip_alpha img duration
      in set_mask base mask)"

text \<open>\<^verbatim>\<open>_draw_centered_text_image\<close>; \<^verbatim>\<open>//\<close> is floor division, as \<open>div\<close> on \<^typ>\<open>int\<close>.\<close>

definition draw_centered_text_image :: "env \<Rightarrow> Size \<Rightarrow> string \<Rightarrow> int \<Rightarrow> paint \<Rightarrow> paint \<Rightarrow> image" where
  "draw_centered_text_image env canvas_size text fontsize text_color bg_color =
     (let (width, height) = canvas_size;
          img = Image_new (width, height) bg_color;
          (x0, y0, x1, y1) = multiline_textbbox env text fontsize ''center'';
          text_w = x1 - x0;
          text_h = y1 - y0;
          x = (width - text_w) div 2;
          y = (height - text_h) div 2
      in draw img (multiline_text (x, y) text fontsize text_color ''center''))"

text \<open>\<^verbatim>\<open>_draw_text_image_tight\<close>.\<close>

definition draw_text_image_tight :: "env \<Rightarrow> string \<Rightarrow> int \<Rightarrow> paint \<Rightarrow> int \<Rightarrow> paint \<Rightarrow> image" where
  "draw_text_image_tight env text fontsize text_color padding bg_rgba =
     (let (x0, y0, x1, y1) = multiline_textbbox env text fontsize ''left'';
          text_w = max 1 (x1 - x0);
          text_h = max 1 (y1 - y0);
          img = Image_new (text_w + 2 * padding, text_h + 2 * padding) bg_rgba
      in draw img (multiline_text (padding, padding) text fontsize text_color ''left''))"

subsection \<open>Annotation helpers\<close>

record Arrow =
  start_pos :: Point
  end_pos :: Point
  ar_color :: paint
  stroke_width :: int
  head_length :: int
  head_angle_deg :: rat

text \<open>\<^verbatim>\<open>Arrow.__init__\<close> with its defaults for the head.\<close>

definition Arrow_init :: "Point \<Rightarrow> Point \<Rightarrow> paint \<Rightarrow> int \<Rightarrow> Arrow" where
  "Arrow_init s e c w =
     \<lparr>start_pos = s, end_pos = e, ar_color = c, stroke_width = w,
      head_length = 24, head_angle_deg = 30\<rparr>"

text \<open>\<^verbatim>\<open>Arrow.as_clip\<close>.\<close>

definition Arrow_as_clip :: "env \<Rightarrow> Arrow \<Rightarrow> rat \<Rightarrow> Size \<Rightarrow> clip" where
  "Arrow_as_clip env self duration video_size =
     (let img = Image_new video_size (RGBA 255 255 255 0);
          img = draw img (line (start_pos self) (end_pos self) (ar_color self) (stroke_width self));
          dx = fst (end_pos self) - fst (start_pos self);
          dy = snd (end_pos self) - snd (start_pos self);
          angle = math_atan2 env (of_int dy) (of_int dx);
          theta = math_radians env (head_angle_deg self);
          left_angle = angle + math_pi env - theta;
          right_angle = angle + math_pi env + theta;
          left_point =
            (py_trunc (of_int (fst (end_pos self)) + of_int (head_length self) * math_cos env left_angle),
             py_trunc (of_int (snd (end_pos self)) + of_int (head_length self) * math_sin env left_angle));
          right_point =
            (py_trunc (of_int (fst (end_pos self)) + of_int (head_length self) * math_cos env right_angle),
             py_trunc (of_int (snd (end_pos self)) + of_int (head_length self) * math_sin env right_angle));
          img = draw img (polygon [end_pos self, left_point, right_point] (ar_color self))
      in pil_rgba_to_imageclip img duration)"

record Text =
  tx_text :: string
  tx_fontsize :: int
  tx_color :: paint
  tx_padding :: int

text \<open>\<^verbatim>\<open>Text.as_clip\<close>.\<close>

definition Text_as_clip :: "env \<Rightarrow> Text \<Rightarrow> rat \<Rightarrow> clip" where
  "Text_as_clip env self duration =
     (let img = draw_text_image_tight env (tx_text self) (tx_fontsize self) (tx_color self)
                  (tx_padding self) (RGBA 0 0 0 0)
      in pil_rgba_to_imageclip img duration)"

text \<open>
  What a caller can hand to \<^verbatim>\<open>add_overlay\<close>: an \<^verbatim>\<open>Arrow\<close>, a \<^verbatim>\<open>Text\<close>, or any other
  Python object (given by its printed form).
\<close>

datatype overlay_obj = ArrowObj Arrow | TextObj Text | OtherObj string

fun isinstance_Arrow :: "overlay_obj \<Rightarrow> bool" where
  "isinstance_Arrow (ArrowObj a) = True"
| "isinstance_Arrow x = False"

fun isinstance_Text :: "overlay_obj \<Rightarrow> bool" where
  "isinstance_Text (TextObj t) = True"
| "isinstance_Text x = False"

subsection \<open>The builder\<close>

record VideoBuilder =
  output_path :: string
  canvas_size :: Size
  fps :: int
  timeline_clips :: "clip list"
  overlay_clips :: "clip list"

definition VideoBuilder_init :: "string \<Rightarrow> Size \<Rightarrow> int \<Rightarrow> VideoBuilder" where
  "VideoBuilder_init path sz f =
     \<lparr>output_path = path, canvas_size = sz, fps = f, timeline_clips = [], overlay_clips = []\<rparr>"

text \<open>
  A method returns what it raised (\<open>Inl\<close>) or that it returned (\<open>Inr ()\<close>), with the
  builder as the call leaves it.
\<close>

type_synonym 's outcome = "(error + unit) \<times> 's"

definition add_text_screen ::
  "env \<Rightarrow> VideoBuilder \<Rightarrow> string \<Rightarrow> rat \<Rightarrow> int \<Rightarrow> paint \<Rightarrow> paint \<Rightarrow> VideoBuilder outcome" where
  "add_text_screen env self text duration fontsize color bg_color =
     (let img = draw_centered_text_image env (canvas_size self) text fontsize color bg_color;
          clip = set_fps (pil_rgba_to_imageclip img duration) (fps self)
      in (Inr (), self\<lparr>timeline_clips := timeline_clips self @ [clip]\<rparr>))"

definition add_clip ::
  "env \<Rightarrow> VideoBuilder \<Rightarrow> string \<Rightarrow> rat \<Rightarrow> rat option \<Rightarrow> rat \<Rightarrow> rat \<Rightarrow> paint \<Rightarrow> VideoBuilder outcome" where
  "add_clip env self filepath start_time end_time fade_in fade_out letterbox_bg =
     (case decode env filepath of
        None \<Rightarrow> (Inl (IOError filepath), self)
      | Some (sz, d, a) \<Rightarrow>
          let base_clip = VideoFileClip filepath sz d a;
              clip = subclip base_clip start_time end_time
          in (case resize_and_letterbox clip (canvas_size self) letterbox_bg of
                Inl e \<Rightarrow> (Inl e, self)
              | Inr clip \<Rightarrow>
                  let clip = (if fade_in \<noteq> 0 \<and> 0 < fade_in then fadein clip fade_in else clip);
                      clip = (if fade_out \<noteq> 0 \<and> 0 < fade_out then fadeout clip fade_out else clip)
                  in (Inr (), self\<lparr>timeline_clips := timeline_clips self @ [clip]\<rparr>)))"

text \<open>The float that the literal \<^verbatim>\<open>1e-3\<close> denotes.\<close>

definition float_1e_3 :: rat where
  "float_1e_3 = round64 (1 / 1000)"

text \<open>The time at which \<^verbatim>\<open>add_freeze_frame\<close> samples the previous clip.\<close>

definition sample_t :: "rat \<Rightarrow> rat \<Rightarrow> rat" where
  "sample_t at_time prev_duration =
     max 0 (min at_time (max 0 (fl_sub prev_duration float_1e_3)))"

definition add_freeze_frame :: "VideoBuilder \<Rightarrow> rat \<Rightarrow> rat \<Rightarrow> VideoBuilder outcome" where
  "add_freeze_frame self duration at_time =
     (if timeline_clips self = []
      then (Inl (ValueError ''You must add a video clip before adding a freeze frame.''), self)
      else
        let previous_clip = last (timeline_clips self);
            t = sample_t at_time (clip_duration previous_clip);
            freeze_clip = set_fps (ImageClip_frame previous_clip t duration) (fps self)
        in case resize_and_letterbox freeze_clip (canvas_size self) (RGB 0 0 0) of
             Inl e \<Rightarrow> (Inl e, self)
           | Inr freeze_clip \<Rightarrow>
               (Inr (), self\<lparr>timeline_clips := timeline_clips self @ [freeze_clip]\<rparr>))"

definition add_overlay ::
  "env \<Rightarrow> VideoBuilder \<Rightarrow> overlay_obj \<Rightarrow> rat \<Rightarrow> rat \<Rightarrow> Position \<Rightarrow> VideoBuilder outcome" where
  "add_overlay env self obj start_time duration position =
     (case (case obj of
              ArrowObj a \<Rightarrow> Inr (Arrow_as_clip env a duration (canvas_size self))
            | TextObj t \<Rightarrow> Inr (Text_as_clip env t duration)
            | OtherObj x \<Rightarrow> Inl (TypeError ''Unsupported overlay object type.'')) of
        Inl e \<Rightarrow> (Inl e, self)
      | Inr clip \<Rightarrow>
          let clip = set_position (set_start clip start_time) position
          in (Inr (), self\<lparr>overlay_clips := overlay_clips self @ [clip]\<rparr>))"

subsection \<open>Rendering\<close>

text \<open>What the program leaves outside itself: the lines printed and the files written.\<close>

record world =
  stdout :: "string list"
  files :: "(string \<times> clip) list"

definition print :: "string \<Rightarrow> world \<Rightarrow> world" where
  "print s w = w\<lparr>stdout := stdout w @ [s]\<rparr>"

definition write_videofile :: "env \<Rightarrow> clip \<Rightarrow> string \<Rightarrow> int \<Rightarrow> world \<Rightarrow> world outcome" where
  "write_videofile env video path f w =
     (case encode env path video f of
        Some e \<Rightarrow> (Inl e, w)
      | None \<Rightarrow> (Inr (), w\<lparr>files := files w @ [(path, video)]\<rparr>))"

text \<open>The local \<^verbatim>\<open>final_timeline\<close> and \<^verbatim>\<open>final_video\<close> of \<^verbatim>\<open>render\<close>.\<close>

definition final_timeline :: "VideoBuilder \<Rightarrow> clip" where
  "final_timeline self = concatenate_videoclips (timeline_clips self)"

text \<open>
  Modelled from the spec: MoviePy's concatenation plays its clips back to back; "the
  absolute start time of entry i is the sum of durations of entries 0..i-1".
\<close>

definition entry_start :: "clip list \<Rightarrow> nat \<Rightarrow> rat" where
  "entry_start cs i = sum_list (map clip_duration (take i cs))"

definition final_video :: "VideoBuilder \<Rightarrow> clip" where
  "final_video self =
     (let composed_layers = [final_timeline self] @ overlay_clips self;
          video = CompositeVideoClip composed_layers (canvas_size self)
      in if has_audio (final_timeline self) then set_audio_of video (final_timeline self)
         else video)"

definition render :: "env \<Rightarrow> VideoBuilder \<Rightarrow> world \<Rightarrow> world outcome" where
  "render env self w =
     (if timeline_clips self = []
      then (Inr (), print ''Timeline is empty. Nothing to render.'' w)
      else write_videofile env (final_video self) (output_path self) (fps self) w)"

subsection \<open>Sequences of appends\<close>

text \<open>
  A caller's script of timeline calls. A call that raises ends the script, as an
  exception that nobody catches does.
\<close>

datatype append_op =
    AddTextScreen string rat int paint paint
  | AddClip string rat "rat option" rat rat paint
  | AddFreezeFrame rat rat

fun apply_op :: "env \<Rightarrow> VideoBuilder \<Rightarrow> append_op \<Rightarrow> VideoBuilder outcome" where
  "apply_op env b (AddTextScreen t d fs c bg) = add_text_screen env b t d fs c bg"
| "apply_op env b (AddClip p s e fi fo bg) = add_clip env b p s e fi fo bg"
| "apply_op env b (AddFreezeFrame d t) = add_freeze_frame b d t"

fun apply_ops :: "env \<Rightarrow> VideoBuilder \<Rightarrow> append_op list \<Rightarrow> VideoBuilder outcome" where
  "apply_ops env b [] = (Inr (), b)"
| "apply_ops env b (x # xs) =
     (case apply_op env b x of
        (Inl e, b') \<Rightarrow> (Inl e, b')
      | (Inr u, b') \<Rightarrow> apply_ops env b' xs)"

subsection \<open>Strings of the command line\<close>

text \<open>
  Strings are byte strings; of Python's white space only the ASCII characters are
  covered. \<^verbatim>\<open>int(s)\<close> on a string: white space around, an optional sign, decimal digits
  with single underscores between them.
\<close>

definition py_isspace :: "char \<Rightarrow> bool" where
  "py_isspace c = ((of_char c :: nat) \<in> {9, 10, 11, 12, 13, 28, 29, 30, 31, 32})"

definition py_strip :: "string \<Rightarrow> string" where
  "py_strip s = rev (dropWhile py_isspace (rev (dropWhile py_isspace s)))"

definition py_lower_char :: "char \<Rightarrow> char" where
  "py_lower_char c =
     (if 65 \<le> (of_char c :: nat) \<and> (of_char c :: nat) \<le> 90 then char_of (of_char c + 32 :: nat)
      else c)"

definition py_lower :: "string \<Rightarrow> string" where
  "py_lower s = map py_lower_char s"

text \<open>\<^verbatim>\<open>s.split(sep)\<close> for a separator of one character.\<close>

fun py_split :: "char \<Rightarrow> string \<Rightarrow> string list" where
  "py_split sep [] = [[]]"
| "py_split sep (c # cs) =
     (if c = sep then [] # py_split sep cs
      else (case py_split sep cs of [] \<Rightarrow> [[c]] | p # ps \<Rightarrow> (c # p) # ps))"

text \<open>\<^verbatim>\<open>s.split(sep, 1)\<close> on a string that holds the separator.\<close>

definition py_split1 :: "char \<Rightarrow> string \<Rightarrow> string \<times> string" where
  "py_split1 sep s = (takeWhile (\<lambda>c. c \<noteq> sep) s, tl (dropWhile (\<lambda>c. c \<noteq> sep) s))"

definition is_digit :: "char \<Rightarrow> bool" where
  "is_digit c = (48 \<le> (of_char c :: nat) \<and> (of_char c :: nat) \<le> 57)"

definition digit_val :: "char \<Rightarrow> int" where
  "digit_val c = int (of_char c) - 48"

fun parse_digits :: "int \<Rightarrow> string \<Rightarrow> int option" where
  "parse_digits acc [] = Some acc"
| "parse_digits acc [c] = (if is_digit c then Some (acc * 10 + digit_val c) else None)"
| "parse_digits acc (c # d # cs) =
     (if c = CHR ''_''
      then (if is_digit d then parse_digits (acc * 10 + digit_val d) cs else None)
      else if is_digit c then parse_digits (acc * 10 + digit_val c) (d # cs)
      else None)"

definition py_int_unsigned :: "string \<Rightarrow> int option" where
  "py_int_unsigned s =
     (case s of [] \<Rightarrow> None
      | c # cs \<Rightarrow> if is_digit c then parse_digits (digit_val c) cs else None)"

definition py_int :: "string \<Rightarrow> int option" where
  "py_int s =
     (case py_strip s of [] \<Rightarrow> None
      | c # cs \<Rightarrow>
          if c = CHR ''-'' then map_option uminus (py_int_unsigned cs)
          else if c = CHR ''+'' then py_int_unsigned cs
          else py_int_unsigned (c # cs))"

text \<open>\<^verbatim>\<open>parse_size\<close>: anything that is not two integers around an x gives 1920 by 1080.\<close>

definition parse_size :: "string \<Rightarrow> Size" where
  "parse_size size_str =
     (case py_split CHR ''x'' (py_lower size_str) of
        [w_str, h_str] \<Rightarrow>
          (case (py_int w_str, py_int h_str) of
             (Some w, Some h) \<Rightarrow> (w, h)
           | _ \<Rightarrow> (1920, 1080))
      | _ \<Rightarrow> (1920, 1080))"

definition parse_token :: "string \<Rightarrow> axis" where
  "parse_token tok =
     (if tok = ''center'' then AxisStr ''center''
      else case py_int tok of Some v \<Rightarrow> AxisInt v | None \<Rightarrow> AxisStr ''center'')"

definition parse_position :: "string \<Rightarrow> Position" where
  "parse_position pos_str =
     (if CHR '','' \<notin> set pos_str
      then
        (let token = py_strip pos_str
         in if token = ''center'' then PosStr ''center''
            else case py_int token of
                   Some v \<Rightarrow> PosPair (AxisInt v) (AxisInt v)
                 | None \<Rightarrow> PosStr ''center'')
      else
        (let (x_str, y_str) = py_split1 CHR '','' pos_str
         in PosPair (parse_token (py_strip x_str)) (parse_token (py_strip y_str))))"

text \<open>
  \<^verbatim>\<open>parse_arrow\<close>: the count of the parts is checked first; then \<^verbatim>\<open>int\<close> is applied to
  the parts from left to right and the first part it rejects raises.
\<close>

definition parse_arrow :: "string \<Rightarrow> error + (Point \<times> Point)" where
  "parse_arrow arrow_str =
     (let parts = map py_strip (py_split CHR '','' arrow_str)
      in if length parts \<noteq> 4 then Inl (ValueError ''--arrow must be in the form x1,y1,x2,y2'')
         else
           (case map py_int parts of
              [Some x1, Some y1, Some x2, Some y2] \<Rightarrow> Inr ((x1, y1), (x2, y2))
            | _ \<Rightarrow> Inl (ValueError ''invalid literal for int() with base 10'')))"

text \<open>The argument is four integers separated by commas.\<close>

definition four_integers :: "string \<Rightarrow> bool" where
  "four_integers arrow_str =
     (let parts = map py_strip (py_split CHR '','' arrow_str)
      in length parts = 4 \<and> list_all (\<lambda>p. py_int p \<noteq> None) parts)"

subsection \<open>The command line program\<close>

text \<open>The namespace that \<^verbatim>\<open>argparse\<close> returns; an option without a default may be absent.\<close>

record args =
  arg_output :: string
  arg_size :: string
  arg_fps :: int
  arg_text :: "string option"
  arg_title_duration :: rat
  arg_title_fontsize :: int
  arg_title_color :: string
  arg_title_bg :: string
  arg_clip :: "string option"
  arg_clip_start :: rat
  arg_clip_end :: "rat option"
  arg_fade_in :: rat
  arg_fade_out :: rat
  arg_freeze_at :: "rat option"
  arg_freeze_duration :: "rat option"
  arg_overlay_text :: "string option"
  arg_overlay_start :: "rat option"
  arg_overlay_duration :: rat
  arg_overlay_position :: string
  arg_overlay_fontsize :: int
  arg_overlay_color :: string
  arg_arrow :: "string option"
  arg_arrow_start :: "rat option"
  arg_arrow_duration :: rat
  arg_arrow_color :: string
  arg_arrow_width :: int

text \<open>The truth value of an optional string: present and not empty.\<close>

definition truthy :: "string option \<Rightarrow> bool" where
  "truthy s = (case s of None \<Rightarrow> False | Some t \<Rightarrow> t \<noteq> [])"

text \<open>The next statement runs if the one before raised nothing.\<close>

definition then_step ::
  "VideoBuilder outcome \<Rightarrow> (VideoBuilder \<Rightarrow> VideoBuilder outcome) \<Rightarrow> VideoBuilder outcome" where
  "then_step r f = (case fst r of Inl e \<Rightarrow> r | Inr u \<Rightarrow> f (snd r))"

text \<open>The five optional blocks of \<^verbatim>\<open>main\<close>, in their order.\<close>

definition step_title :: "env \<Rightarrow> args \<Rightarrow> VideoBuilder \<Rightarrow> VideoBuilder outcome" where
  "step_title env a editor =
     (if truthy (arg_text a)
      then add_text_screen env editor (the (arg_text a)) (arg_title_duration a)
             (arg_title_fontsize a) (Named (arg_title_color a)) (Named (arg_title_bg a))
      else (Inr (), editor))"

definition step_clip :: "env \<Rightarrow> args \<Rightarrow> VideoBuilder \<Rightarrow> VideoBuilder outcome" where
  "step_clip env a editor =
     (if truthy (arg_clip a)
      then add_clip env editor (the (arg_clip a)) (arg_clip_start a) (arg_clip_end a)
             (arg_fade_in a) (arg_fade_out a) (RGB 0 0 0)
      else (Inr (), editor))"

definition step_freeze :: "args \<Rightarrow> VideoBuilder \<Rightarrow> VideoBuilder outcome" where
  "step_freeze a editor =
     (case (arg_freeze_at a, arg_freeze_duration a) of
        (Some at_time, Some duration) \<Rightarrow> add_freeze_frame editor duration at_time
      | _ \<Rightarrow> (Inr (), editor))"

definition step_text_overlay :: "env \<Rightarrow> args \<Rightarrow> VideoBuilder \<Rightarrow> VideoBuilder outcome" where
  "step_text_overlay env a editor =
     (case (truthy (arg_overlay_text a), arg_overlay_start a) of
        (True, Some start_time) \<Rightarrow>
          (let overlay_clip =
                 \<lparr>tx_text = the (arg_overlay_text a), tx_fontsize = arg_overlay_fontsize a,
                  tx_color = Named (arg_overlay_color a), tx_padding = 8\<rparr>
           in add_overlay env editor (TextObj overlay_clip) start_time (arg_overlay_duration a)
                (parse_position (arg_overlay_position a)))
      | _ \<Rightarrow> (Inr (), editor))"

definition step_arrow_overlay :: "env \<Rightarrow> args \<Rightarrow> VideoBuilder \<Rightarrow> VideoBuilder outcome" where
  "step_arrow_overlay env a editor =
     (case (truthy (arg_arrow a), arg_arrow_start a) of
        (True, Some start_time) \<Rightarrow>
          (case parse_arrow (the (arg_arrow a)) of
             Inl e \<Rightarrow> (Inl e, editor)
           | Inr (start_pt, end_pt) \<Rightarrow>
               (let arrow_clip =
                      Arrow_init start_pt end_pt (Named (arg_arrow_color a)) (arg_arrow_width a)
                in add_overlay env editor (ArrowObj arrow_clip) start_time (arg_arrow_duration a)
                     (PosPair (AxisInt 0) (AxisInt 0))))
      | _ \<Rightarrow> (Inr (), editor))"

text \<open>The builder as \<^verbatim>\<open>main\<close> holds it when it reaches the arrow block.\<close>

definition before_arrow :: "env \<Rightarrow> args \<Rightarrow> VideoBuilder outcome" where
  "before_arrow env a =
     (let size = parse_size (arg_size a);
          editor = VideoBuilder_init (arg_output a) size (arg_fps a)
      in then_step (then_step (then_step (step_title env a editor) (step_clip env a))
           (step_freeze a)) (step_text_overlay env a))"

text \<open>
  \<^verbatim>\<open>main\<close>: what it raised or that it returned, the builder \<^verbatim>\<open>editor\<close> as it ends, and
  the world.
\<close>

definition main :: "env \<Rightarrow> args \<Rightarrow> world \<Rightarrow> (error + unit) \<times> VideoBuilder \<times> world" where
  "main env a w =
     (let built = then_step (before_arrow env a) (step_arrow_overlay env a)
      in case fst built of
           Inl e \<Rightarrow> (Inl e, snd built, w)
         | Inr u \<Rightarrow>
             (case render env (snd built) w of
                (Inl e, w') \<Rightarrow> (Inl e, snd built, w')
              | (Inr u', w') \<Rightarrow> (Inr (), snd built, print ''Video generation complete!'' w')))"

subsection \<open>Sample values\<close>

text \<open>
  An environment, a builder, a script and a command line on which the definitions are
  evaluated. Text of n characters at font size s measures n * s by s (nothing for no
  text); the only readable file is \<^verbatim>\<open>clip.mp4\<close>, 640 by 480, ten seconds, with sound; the
  encoder accepts everything. The values given to the \<^verbatim>\<open>math\<close> functions are placeholders.
\<close>

definition sample_env :: env where
  "sample_env =
     \<lparr>multiline_textbbox = (\<lambda>t fs al. (0, 0, int (length t) * fs, if t = [] then 0 else fs)),
      decode = (\<lambda>p. if p = ''clip.mp4'' then Some ((640, 480), 10, True) else None),
      encode = (\<lambda>p v f. None),
      math_atan2 = (\<lambda>y x. 0),
      math_radians = (\<lambda>d. d * 355 / (113 * 180)),
      math_pi = 355 / 113,
      math_cos = (\<lambda>x. 1),
      math_sin = (\<lambda>x. 0)\<rparr>"

definition sample_builder :: VideoBuilder where
  "sample_builder = VideoBuilder_init ''output.mp4'' (1920, 1080) 30"

definition sample_timeline :: VideoBuilder where
  "sample_timeline = sample_builder\<lparr>timeline_clips := [ColorClip (1920, 1080) (RGB 0 0 0) 4]\<rparr>"

definition sample_overlays :: VideoBuilder where
  "sample_overlays =
     sample_builder\<lparr>overlay_clips :=
       [set_position (set_start (ColorClip (10, 10) (RGB 255 0 0) 2) 1) (PosStr ''center'')]\<rparr>"

definition sample_ops :: "append_op list" where
  "sample_ops =
     [AddTextScreen ''Intro'' 2 70 (Named ''white'') (Named ''black''),
      AddClip ''clip.mp4'' 0 (Some 5) 1 0 (RGB 0 0 0),
      AddFreezeFrame 3 2]"

definition sample_args :: args where
  "sample_args =
     \<lparr>arg_output = ''output.mp4'', arg_size = ''1920x1080'', arg_fps = 30,
      arg_text = Some ''Intro'', arg_title_duration = 4, arg_title_fontsize = 70,
      arg_title_color = ''white'', arg_title_bg = ''black'',
      arg_clip = None, arg_clip_start = 0, arg_clip_end = None, arg_fade_in = 0, arg_fade_out = 0,
      arg_freeze_at = None, arg_freeze_duration = None,
      arg_overlay_text = None, arg_overlay_start = None, arg_overlay_duration = 4,
      arg_overlay_position = ''center,center'', arg_overlay_fontsize = 50,
      arg_overlay_color = ''white'',
      arg_arrow = Some ''1,2,3'', arg_arrow_start = None, arg_arrow_duration = 4,
      arg_arrow_color = ''yellow'', arg_arrow_width = 5\<rparr>"

definition sample_world :: world where
  "sample_world = \<lparr>stdout = [], files = []\<rparr>"

definition sample_bad_arrow_args :: args where
  "sample_bad_arrow_args = sample_args\<lparr>arg_arrow_start := Some 1\<rparr>"

definition sample_arrow_args :: args where
  "sample_arrow_args =
     sample_args\<lparr>arg_arrow := Some ''10,20,300,400'', arg_arrow_start := Some 1,
       arg_overlay_position := ''100,100''\<rparr>"

text \<open>The builder and the command line of \<^verbatim>\<open>--size 0x0 --text T\<close> with a freeze frame.\<close>

definition sample_zero_canvas :: VideoBuilder where
  "sample_zero_canvas =
     snd (add_text_screen sample_env (VideoBuilder_init ''output.mp4'' (parse_size ''0x0'') 30)
            ''T'' 4 70 (Named ''white'') (Named ''black''))"

definition sample_zero_args :: args where
  "sample_zero_args =
     sample_args\<lparr>arg_size := ''0x0'', arg_text := Some ''T'', arg_freeze_at := Some 1,
       arg_freeze_duration := Some 2, arg_arrow := None\<rparr>"

section \<open>Properties\<close>

subsection \<open>Binary64 arithmetic\<close>

text \<open>Integers below 2^53 are binary64 numbers: rounding leaves them as they are.\<close>

lemma round_half_even_of_int: "round_half_even (of_int n) = n"
  by (simp add: round_half_even_def)

lemma pow2_nonpos:
  assumes "q \<le> 0"
  shows "pow2 q = 1 / 2 ^ nat (- q)"
  using assms by (cases "q = 0") (simp_all add: pow2_def)

lemma ilog2_of_int:
  assumes "0 < n"
  shows "ilog2 (of_int n) = bitlen n - 1"
  using assms by (simp add: ilog2_def)

lemma round64_of_int:
  assumes "0 < n" and "n < 2 ^ 53"
  shows "round64 (of_int n) = of_int n"
proof -
  from assms(2) have "bitlen n \<le> 53" by (simp add: bitlen_le_iff_power)
  moreover from assms(1) have "1 \<le> bitlen n"
    using bitlen_eq_zero_iff [of n] bitlen_nonneg [of n] by linarith
  ultimately have q: "max (bitlen n - 1) (- 1022) - 52 = bitlen n - 53" "bitlen n - 53 \<le> 0"
    by simp_all
  let ?k = "nat (53 - bitlen n)"
  have p: "pow2 (bitlen n - 53) = 1 / 2 ^ ?k"
    using pow2_nonpos [OF q(2)] by simp
  have "of_int n / pow2 (bitlen n - 53) = (of_int (n * 2 ^ ?k) :: rat)"
    by (simp add: p)
  then have m: "round_half_even (of_int n / pow2 (bitlen n - 53)) = n * 2 ^ ?k"
    by (simp only: round_half_even_of_int)
  from assms(1) have "round64 (of_int n) = of_int (n * 2 ^ ?k) * pow2 (bitlen n - 53)"
    by (simp add: round64_def Let_def ilog2_of_int q(1) m del: of_int_mult of_int_power)
  also have "\<dots> = of_int n" by (simp add: p)
  finally show ?thesis .
qed

lemma finite64_small_int:
  assumes "0 < n" and "n < 2 ^ 53"
  shows "finite64 (of_int n)"
proof -
  from assms(2) have "bitlen n \<le> 53" by (simp add: bitlen_le_iff_power)
  with assms(1) show ?thesis by (simp add: finite64_def ilog2_of_int)
qed

lemma float_of_small_int:
  assumes "0 < n" and "n < 2 ^ 53"
  shows "float_of_int n = Inr (of_int n)"
  using round64_of_int [OF assms] finite64_small_int [OF assms]
  by (simp add: float_of_int_def)

lemma scaled_dim_one:
  assumes "0 < n" and "n < 2 ^ 53"
  shows "scaled_dim n 1 = Inr n"
  using round64_of_int [OF assms] finite64_small_int [OF assms]
  by (simp add: scaled_dim_def and_then_def float_of_small_int [OF assms] fl_mul_def py_round_def
      round_half_even_of_int)

lemma true_div_self:
  assumes "n \<noteq> 0"
  shows "true_div n n = Inr 1"
proof -
  have "round64 (of_int 1) = of_int 1" by (rule round64_of_int) simp_all
  then have "round64 1 = 1" by simp
  moreover have "finite64 (of_int 1)" by (rule finite64_small_int) simp_all
  ultimately show ?thesis using assms by (simp add: true_div_def)
qed

text \<open>The literal \<^verbatim>\<open>1e-3\<close> is a little more than a thousandth.\<close>

lemma float_1e_3_value: "float_1e_3 = 1152921504606847 / 1152921504606846976"
  unfolding float_1e_3_def by code_simp

text \<open>
  Two products that fall on a tie in exact arithmetic and off it in binary64: the code
  rounds 14.500000000000002 to 15 and 472.50000000000006 to 473.
\<close>

lemma letterbox_new_size_off_tie:
  "letterbox_new_size (7, 14) (15, 29) = Inr (15, 29)"
  "letterbox_new_size (350, 800) (1920, 1080) = Inr (473, 1080)"
  by code_simp+

subsection \<open>The letterbox resizer\<close>

lemma letterbox_result:
  assumes "clip_size c = (cw, ch)"
    and "letterbox_new_size (cw, ch) target = Inr (nw, nh)"
    and "0 < nw" and "0 < nh"
  shows "resize_and_letterbox c target bg =
     Inr (if (nw, nh) = target then resize c (nw, nh)
          else if has_audio c
          then set_audio_of
                 (CompositeVideoClip
                    [ColorClip target bg (clip_duration c),
                     set_position (resize c (nw, nh)) (PosStr ''center'')]
                    target) c
          else CompositeVideoClip
                 [ColorClip target bg (clip_duration c),
                  set_position (resize c (nw, nh)) (PosStr ''center'')]
                 target)"
  using assms by (simp add: resize_and_letterbox_def and_then_def clip_resize_def Let_def)

lemma letterbox_size:
  assumes "resize_and_letterbox c target bg = Inr r"
  shows "clip_size r = target"
  using assms
  by (auto simp: resize_and_letterbox_def and_then_def clip_resize_def Let_def
      split: sum.splits if_splits)

lemma letterbox_duration:
  assumes "resize_and_letterbox c target bg = Inr r" and "clip_start c = 0"
  shows "clip_duration r = clip_duration c"
  using assms
  by (auto simp: resize_and_letterbox_def and_then_def clip_resize_def Let_def
      split: sum.splits if_splits)

lemma center_offset:
  "layer_offset (tw, th) (set_position (resize c (nw, nh)) (PosStr ''center'')) =
     Some (py_trunc (of_int (tw - nw) / 2), py_trunc (of_int (th - nh) / 2))"
  by (simp add: layer_offset_def resolve_position_def resolve_axis_def)

text \<open>
  A source without width cannot be letterboxed, and neither can one whose scaled size
  has a dimension that is not positive. A source that has the size of the target
  already (below 2^53) is resized to that size and not composed.
\<close>

lemma letterbox_zero_width:
  assumes "clip_size c = (0, ch)"
  shows "resize_and_letterbox c target bg = Inl ZeroDivisionError"
  using assms
  by (simp add: resize_and_letterbox_def letterbox_new_size_def and_then_def true_div_def
      split: prod.splits)

lemma letterbox_zero_height:
  assumes "clip_size c = (cw, 0)" and "true_div tw cw = Inr a"
  shows "resize_and_letterbox c (tw, th) bg = Inl ZeroDivisionError"
proof -
  have "true_div th 0 = Inl ZeroDivisionError" by (simp add: true_div_def)
  with assms show ?thesis
    by (simp add: resize_and_letterbox_def letterbox_new_size_def and_then_def)
qed

lemma letterbox_not_positive:
  assumes "clip_size c = (cw, ch)"
    and "letterbox_new_size (cw, ch) target = Inr (nw, nh)"
    and "nw \<le> 0 \<or> nh \<le> 0"
  shows "resize_and_letterbox c target bg = Inl ResizeError"
  using assms by (auto simp: resize_and_letterbox_def and_then_def clip_resize_def)

lemma letterbox_new_size_same:
  assumes "0 < w" "w < 2 ^ 53" "0 < h" "h < 2 ^ 53"
  shows "letterbox_new_size (w, h) (w, h) = Inr (w, h)"
  using assms
  by (simp add: letterbox_new_size_def and_then_def true_div_self scaled_dim_one)

lemma letterbox_same_size:
  assumes "clip_size c = (w, h)" and "0 < w" "w < 2 ^ 53" "0 < h" "h < 2 ^ 53"
  shows "resize_and_letterbox c (w, h) bg = Inr (resize c (w, h))"
  using letterbox_result [OF assms(1) letterbox_new_size_same [OF assms(2-5)] assms(2) assms(4)]
  by simp

text \<open>
  Claim C1, as the code has it. Let a source visual have the size (cw, ch) and let the
  code's arithmetic give scale = min(tw/cw, th/ch) and the new size
  (nw, nh) = (round(cw * scale), round(ch * scale)), both dimensions positive. Then the
  letterbox resizer returns: when the new size is the target, the resized content and
  nothing else; otherwise the composite, of the target size, of a background clip of
  the target size and colour and the resized content placed at \<^verbatim>\<open>center\<close>, which resolves
  to the offset ((tw - nw)/2, (th - nh)/2) truncated to integers (with the audio of the
  source set again when it has one). In both cases the size of the result is exactly
  (tw, th).
\<close>

theorem resize_and_letterbox_contract:
  assumes src: "clip_size c = (cw, ch)"
    and qw: "true_div tw cw = Inr a" and qh: "true_div th ch = Inr b"
    and scale: "scale = min a b"
    and nw: "scaled_dim cw scale = Inr nw" and nh: "scaled_dim ch scale = Inr nh"
    and pos: "0 < nw" "0 < nh"
    and inner: "inner = set_position (resize c (nw, nh)) (PosStr ''center'')"
    and comp: "composed = CompositeVideoClip [ColorClip (tw, th) bg (clip_duration c), inner] (tw, th)"
  shows "\<exists>r. resize_and_letterbox c (tw, th) bg = Inr r
           \<and> r = (if (nw, nh) = (tw, th) then resize c (nw, nh)
                  else if has_audio c then set_audio_of composed c else composed)
           \<and> clip_size r = (tw, th)
           \<and> layer_offset (tw, th) inner =
               Some (py_trunc (of_int (tw - nw) / 2), py_trunc (of_int (th - nh) / 2))"
proof -
  have ns: "letterbox_new_size (cw, ch) (tw, th) = Inr (nw, nh)"
    using qw qh nw nh by (simp add: letterbox_new_size_def and_then_def Let_def scale)
  have res: "resize_and_letterbox c (tw, th) bg =
     Inr (if (nw, nh) = (tw, th) then resize c (nw, nh)
          else if has_audio c then set_audio_of composed c else composed)"
    using letterbox_result [OF src ns pos, of bg] by (simp add: comp inner)
  moreover from res have "clip_size (if (nw, nh) = (tw, th) then resize c (nw, nh)
          else if has_audio c then set_audio_of composed c else composed) = (tw, th)"
    by (rule letterbox_size)
  moreover have "layer_offset (tw, th) inner =
               Some (py_trunc (of_int (tw - nw) / 2), py_trunc (of_int (th - nh) / 2))"
    unfolding inner by (rule center_offset)
  ultimately show ?thesis by blast
qed

theorem resize_and_letterbox_contract_witness:
  "resize_and_letterbox (VideoFileClip ''a.mp4'' (640, 480) 10 True) (1920, 1080) (RGB 0 0 0) =
     Inr (set_audio_of
            (CompositeVideoClip
               [ColorClip (1920, 1080) (RGB 0 0 0) 10,
                set_position (resize (VideoFileClip ''a.mp4'' (640, 480) 10 True) (1440, 1080))
                  (PosStr ''center'')]
               (1920, 1080))
            (VideoFileClip ''a.mp4'' (640, 480) 10 True))
   \<and> layer_offset (1920, 1080)
        (set_position (resize (VideoFileClip ''a.mp4'' (640, 480) 10 True) (1440, 1080))
           (PosStr ''center'')) = Some (240, 0)
   \<and> resize_and_letterbox (VideoFileClip ''b.mp4'' (7, 14) 5 False) (15, 29) (RGB 0 0 0) =
     Inr (resize (VideoFileClip ''b.mp4'' (7, 14) 5 False) (15, 29))"
proof -
  have a: "clip_size (VideoFileClip ''a.mp4'' (640, 480) 10 True) = (640, 480)" by simp
  have b: "clip_size (VideoFileClip ''b.mp4'' (7, 14) 5 False) = (7, 14)" by simp
  have qa: "true_div 1920 640 = Inr 3" "true_div 1080 480 = Inr (9 / 4)" by code_simp+
  have sa: "(9 / 4 :: rat) = min 3 (9 / 4)" by simp
  have na: "scaled_dim 640 (9 / 4) = Inr 1440" "scaled_dim 480 (9 / 4) = Inr 1080" by code_simp+
  have qb: "true_div 15 7 = Inr (4825285315039817 / 2251799813685248)"
    "true_div 29 14 = Inr (4664442471205157 / 2251799813685248)" by code_simp+
  have sb: "(4664442471205157 / 2251799813685248 :: rat) =
      min (4825285315039817 / 2251799813685248) (4664442471205157 / 2251799813685248)" by simp
  have nb: "scaled_dim 7 (4664442471205157 / 2251799813685248) = Inr 15"
    "scaled_dim 14 (4664442471205157 / 2251799813685248) = Inr 29" by code_simp+
  have p: "(0::int) < 1440" "(0::int) < 1080" "(0::int) < 15" "(0::int) < 29" by simp_all
  from resize_and_letterbox_contract [OF a qa sa na p(1) p(2) refl refl, of "RGB 0 0 0"]
       resize_and_letterbox_contract [OF b qb sb nb p(3) p(4) refl refl, of "RGB 0 0 0"]
  show ?thesis
    by (simp add: py_trunc_def)
qed

text \<open>
  Claim C1 as stated fails where the code raises: a source of 1000 by 3 scales to 100 by
  0 in a target of 100 by 100, which the resize refuses, and the still of a screen
  without width and height cannot be divided by.
\<close>

theorem resize_and_letterbox_counterexample:
  "resize_and_letterbox (VideoFileClip ''wide.mp4'' (1000, 3) 10 False) (100, 100) (RGB 0 0 0) =
     Inl ResizeError
   \<and> resize_and_letterbox (ImageClip_frame (ColorClip (0, 0) (Named ''black'') 4) 1 2) (0, 0)
       (RGB 0 0 0) = Inl ZeroDivisionError"
proof -
  have "resize_and_letterbox (VideoFileClip ''wide.mp4'' (1000, 3) 10 False) (100, 100)
      (RGB 0 0 0) = Inl ResizeError"
    by code_simp
  moreover have "resize_and_letterbox (ImageClip_frame (ColorClip (0, 0) (Named ''black'') 4) 1 2)
      (0, 0) (RGB 0 0 0) = Inl ZeroDivisionError"
    by code_simp
  ultimately show ?thesis by simp
qed

subsection \<open>Freeze frames\<close>

lemma sample_t_clamp: "sample_t at_time d = max 0 (min at_time (fl_sub d float_1e_3))"
  by (simp add: sample_t_def max_def min_def)

text \<open>
  After a clip of 1.1 seconds the code samples at 1.0990000000000002, the binary64
  difference of 1.1 and 0.001, whatever later time is asked for.
\<close>

lemma sample_t_rounds:
  "sample_t 2 (round64 (11 / 10)) = 309340999405011 / 281474976710656"
  by code_simp

text \<open>
  Claim C3, as the code has it. On a timeline that is not empty, whose last entry has a
  size that the letterbox resizer scales to a positive size on the canvas,
  \<^verbatim>\<open>add_freeze_frame\<close> takes one frame, from the last entry of the timeline, at the time
  clamp(at_time, 0, d - 1e-3), where d is the duration of that entry and the difference
  is the binary64 one; it holds the frame as a still image for the given duration,
  conforms it to the canvas, and appends it: the new entry has the size of the canvas
  and the given duration. The sample time is never negative and never beyond the
  difference d - 1e-3 when that is not negative.
\<close>

theorem add_freeze_frame_samples_previous:
  assumes nonempty: "timeline_clips self \<noteq> []"
    and prev: "prev = last (timeline_clips self)"
    and sz: "clip_size prev = (cw, ch)"
    and ns: "letterbox_new_size (cw, ch) (canvas_size self) = Inr (nw, nh)"
    and pos: "0 < nw" "0 < nh"
    and t: "t = max 0 (min at_time (fl_sub (clip_duration prev) float_1e_3))"
    and still: "still = set_fps (ImageClip_frame prev t duration) (fps self)"
  shows "\<exists>c. add_freeze_frame self duration at_time =
               (Inr (), self\<lparr>timeline_clips := timeline_clips self @ [c]\<rparr>)
           \<and> resize_and_letterbox still (canvas_size self) (RGB 0 0 0) = Inr c
           \<and> clip_size c = canvas_size self
           \<and> clip_duration c = duration
           \<and> 0 \<le> t
           \<and> (0 \<le> fl_sub (clip_duration prev) float_1e_3 \<longrightarrow>
                t \<le> fl_sub (clip_duration prev) float_1e_3)"
proof -
  have ssz: "clip_size still = (cw, ch)" by (simp add: still sz)
  from letterbox_result [OF ssz ns pos, of "RGB 0 0 0"]
  obtain c where c: "resize_and_letterbox still (canvas_size self) (RGB 0 0 0) = Inr c"
    by blast
  have st: "sample_t at_time (clip_duration prev) = t"
    by (simp add: sample_t_clamp t)
  have "add_freeze_frame self duration at_time =
          (Inr (), self\<lparr>timeline_clips := timeline_clips self @ [c]\<rparr>)"
    using nonempty c by (simp add: add_freeze_frame_def Let_def prev [symmetric] st still [symmetric])
  moreover have "clip_size c = canvas_size self" using c by (rule letterbox_size)
  moreover have "clip_duration c = duration"
    using letterbox_duration [OF c] by (simp add: still)
  moreover have "0 \<le> t" by (simp add: t)
  moreover have "0 \<le> fl_sub (clip_duration prev) float_1e_3 \<longrightarrow>
      t \<le> fl_sub (clip_duration prev) float_1e_3"
    by (simp add: t)
  ultimately show ?thesis using c by blast
qed

theorem add_freeze_frame_samples_previous_witness:
  "add_freeze_frame sample_timeline 3 20 =
     (Inr (), sample_timeline\<lparr>timeline_clips := timeline_clips sample_timeline @
        [resize
           (set_fps
              (ImageClip_frame (ColorClip (1920, 1080) (RGB 0 0 0) 4)
                 (9004947454927307 / 2251799813685248) 3) 30)
           (1920, 1080)]\<rparr>)"
proof -
  let ?prev = "ColorClip (1920, 1080) (RGB 0 0 0) 4"
  let ?t = "9004947454927307 / 2251799813685248 :: rat"
  let ?still = "set_fps (ImageClip_frame ?prev ?t 3) 30"
  have ne: "timeline_clips sample_timeline \<noteq> []" by (simp add: sample_timeline_def)
  have prev: "?prev = last (timeline_clips sample_timeline)" by (simp add: sample_timeline_def)
  have sz: "clip_size ?prev = (1920, 1080)" by simp
  have cs: "canvas_size sample_timeline = (1920, 1080)"
    by (simp add: sample_timeline_def sample_builder_def VideoBuilder_init_def)
  have b: "(0::int) < 1920" "(1920::int) < 2 ^ 53" "(0::int) < 1080" "(1080::int) < 2 ^ 53"
    by simp_all
  have ns: "letterbox_new_size (1920, 1080) (canvas_size sample_timeline) = Inr (1920, 1080)"
    unfolding cs by (rule letterbox_new_size_same [OF b])
  have "fl_sub 4 float_1e_3 = ?t" by code_simp
  then have t: "?t = max 0 (min 20 (fl_sub (clip_duration ?prev) float_1e_3))" by simp
  have still: "?still = set_fps (ImageClip_frame ?prev ?t 3) (fps sample_timeline)"
    by (simp add: sample_timeline_def sample_builder_def VideoBuilder_init_def)
  have "clip_size ?still = (1920, 1080)" by simp
  from letterbox_same_size [OF this b]
  have lb: "resize_and_letterbox ?still (1920, 1080) (RGB 0 0 0) = Inr (resize ?still (1920, 1080))" .
  from add_freeze_frame_samples_previous [OF ne prev sz ns b(1) b(3) t still]
  show ?thesis by (auto simp: cs lb)
qed

text \<open>
  Claim C3 as stated fails on a timeline whose last entry has no width: with
  \<^verbatim>\<open>--size 0x0 --text T\<close> the timeline holds the title screen, and the freeze frame
  raises \<^verbatim>\<open>ZeroDivisionError\<close> and appends nothing.
\<close>

theorem add_freeze_frame_counterexample:
  "length (timeline_clips sample_zero_canvas) = 1
   \<and> fst (add_freeze_frame sample_zero_canvas 2 1) = Inl ZeroDivisionError
   \<and> length (timeline_clips (snd (add_freeze_frame sample_zero_canvas 2 1))) = 1
   \<and> fst (main sample_env sample_zero_args sample_world) = Inl ZeroDivisionError"
proof -
  have "length (timeline_clips sample_zero_canvas) = 1" by code_simp
  moreover have "fst (add_freeze_frame sample_zero_canvas 2 1) = Inl ZeroDivisionError"
    by code_simp
  moreover have "length (timeline_clips (snd (add_freeze_frame sample_zero_canvas 2 1))) = 1"
    by code_simp
  moreover have "fst (main sample_env sample_zero_args sample_world) = Inl ZeroDivisionError"
    by code_simp
  ultimately show ?thesis by simp
qed

text \<open>
  Claim C4. On an empty timeline \<^verbatim>\<open>add_freeze_frame\<close> raises (the \<^verbatim>\<open>ValueError\<close> that the
  specification calls EmptyTimelineError) and leaves the builder, so also its timeline,
  as it was.
\<close>

theorem add_freeze_frame_empty_timeline:
  assumes "timeline_clips self = []"
  shows "add_freeze_frame self duration at_time =
           (Inl (ValueError ''You must add a video clip before adding a freeze frame.''), self)"
  using assms by (simp add: add_freeze_frame_def)

theorem add_freeze_frame_empty_timeline_witness:
  "timeline_clips sample_builder = []
   \<and> add_freeze_frame sample_builder 3 2 =
       (Inl (ValueError ''You must add a video clip before adding a freeze frame.''),
        sample_builder)"
proof -
  have e: "timeline_clips sample_builder = []"
    by (simp add: sample_builder_def VideoBuilder_init_def)
  from add_freeze_frame_empty_timeline [OF e, of 3 2] e show ?thesis by simp
qed

subsection \<open>Rendering and overlays\<close>

text \<open>
  Claim C6. With no entry on the timeline, \<^verbatim>\<open>render\<close> raises nothing and writes no file,
  whatever the overlays are: it prints a line and returns.
\<close>

theorem render_empty_timeline:
  assumes "timeline_clips self = []"
  shows "render env self w = (Inr (), print ''Timeline is empty. Nothing to render.'' w)
       \<and> files (snd (render env self w)) = files w"
  using assms by (simp add: render_def print_def)

theorem render_empty_timeline_witness:
  "timeline_clips sample_overlays = [] \<and> overlay_clips sample_overlays \<noteq> []
   \<and> render sample_env sample_overlays sample_world =
       (Inr (), \<lparr>stdout = [''Timeline is empty. Nothing to render.''], files = []\<rparr>)"
proof -
  have e: "timeline_clips sample_overlays = []"
    by (simp add: sample_overlays_def sample_builder_def VideoBuilder_init_def)
  have o: "overlay_clips sample_overlays \<noteq> []"
    by (simp add: sample_overlays_def)
  from render_empty_timeline [OF e, of sample_env sample_world] e o show ?thesis
    by (simp add: print_def sample_world_def)
qed

text \<open>
  Claim C7. An overlay object that is neither an \<^verbatim>\<open>Arrow\<close> nor a \<^verbatim>\<open>Text\<close> makes
  \<^verbatim>\<open>add_overlay\<close> raise (the \<^verbatim>\<open>TypeError\<close> that the specification calls
  UnsupportedOverlayTypeError), and the builder, with its timeline and its overlays, is
  as it was before the call.
\<close>

theorem add_overlay_unsupported:
  assumes "\<not> isinstance_Arrow obj" and "\<not> isinstance_Text obj"
  shows "add_overlay env self obj start_time duration position =
           (Inl (TypeError ''Unsupported overlay object type.''), self)"
  using assms by (cases obj) (simp_all add: add_overlay_def)

theorem add_overlay_unsupported_witness:
  "\<not> isinstance_Arrow (OtherObj ''42'') \<and> \<not> isinstance_Text (OtherObj ''42'')
   \<and> add_overlay sample_env sample_timeline (OtherObj ''42'') 1 4 (PosStr ''center'') =
       (Inl (TypeError ''Unsupported overlay object type.''), sample_timeline)"
proof -
  have a: "\<not> isinstance_Arrow (OtherObj ''42'')" and t: "\<not> isinstance_Text (OtherObj ''42'')"
    by simp_all
  from add_overlay_unsupported [OF a t, of sample_env sample_timeline 1 4 "PosStr ''center''"] a t
  show ?thesis by simp
qed

subsection \<open>Overlay text\<close>

text \<open>
  Claim C10, as the code has it. For every text, whatever its measured box
  (x0, y0, x1, y1), each measured dimension of the tight overlay image is floored at 1:
  the image is exactly max(1, x1 - x0) + 2 * padding wide and max(1, y1 - y0) + 2 * padding
  high, so at least 1 + 2 * padding each way; with a padding that is not negative no
  dimension handed to the image constructor is zero or negative. The clip that
  \<^verbatim>\<open>Text.as_clip\<close> returns has the size of that image.
\<close>

theorem draw_text_image_tight_floor:
  assumes box: "multiline_textbbox env str fontsize ''left'' = (x0, y0, x1, y1)"
    and img: "img = draw_text_image_tight env str fontsize text_color padding bg_rgba"
  shows "im_size img = (max 1 (x1 - x0) + 2 * padding, max 1 (y1 - y0) + 2 * padding)
       \<and> 1 + 2 * padding \<le> fst (im_size img) \<and> 1 + 2 * padding \<le> snd (im_size img)
       \<and> (0 \<le> padding \<longrightarrow> 1 \<le> fst (im_size img) \<and> 1 \<le> snd (im_size img))
       \<and> clip_size (Text_as_clip env \<lparr>tx_text = str, tx_fontsize = fontsize,
            tx_color = text_color, tx_padding = padding\<rparr> duration) = im_size img"
  unfolding img using box
  by (auto simp: draw_text_image_tight_def Text_as_clip_def pil_rgba_to_imageclip_def
      Image_new_def draw_def Let_def)

theorem draw_text_image_tight_floor_witness:
  "(0::int) \<le> 8
   \<and> multiline_textbbox sample_env [] 50 ''left'' = (0, 0, 0, 0)
   \<and> im_size (draw_text_image_tight sample_env [] 50 (Named ''white'') 8 (RGBA 0 0 0 0)) = (17, 17)
   \<and> multiline_textbbox sample_env ''Note'' 50 ''left'' = (0, 0, 200, 50)
   \<and> im_size (draw_text_image_tight sample_env ''Note'' 50 (Named ''white'') 8 (RGBA 0 0 0 0)) =
       (216, 66)"
proof -
  have e: "multiline_textbbox sample_env [] 50 ''left'' = (0, 0, 0, 0)"
    by (simp add: sample_env_def)
  have n: "multiline_textbbox sample_env ''Note'' 50 ''left'' = (0, 0, 200, 50)"
    by (simp add: sample_env_def)
  from draw_text_image_tight_floor [OF e refl, of "Named ''white''" 8 "RGBA 0 0 0 0"]
       draw_text_image_tight_floor [OF n refl, of "Named ''white''" 8 "RGBA 0 0 0 0"] e n
  show ?thesis by simp
qed

text \<open>
  Claim C10 as stated fails for a negative padding: with padding -1 the empty text
  gives the image constructor the size (-1, -1).
\<close>

theorem draw_text_image_tight_counterexample:
  "im_size (draw_text_image_tight sample_env [] 50 (Named ''white'') (- 1) (RGBA 0 0 0 0)) = (- 1, - 1)
   \<and> clip_size (Text_as_clip sample_env
        \<lparr>tx_text = [], tx_fontsize = 50, tx_color = Named ''white'', tx_padding = - 1\<rparr> 4) = (- 1, - 1)"
  by (simp add: draw_text_image_tight_def Text_as_clip_def pil_rgba_to_imageclip_def
      Image_new_def draw_def sample_env_def Let_def)

subsection \<open>The timeline\<close>

lemma apply_op_appends:
  assumes "apply_op env b x = (Inr u, b')"
  shows "\<exists>c. b' = b\<lparr>timeline_clips := timeline_clips b @ [c]\<rparr>"
proof (cases x)
  case (AddTextScreen t d fs c bg)
  with assms show ?thesis by (auto simp: add_text_screen_def Let_def)
next
  case (AddClip p s e fi fo bg)
  with assms show ?thesis
    by (auto simp: add_clip_def Let_def split: option.splits prod.splits sum.splits)
next
  case (AddFreezeFrame d t)
  with assms show ?thesis
    by (auto simp: add_freeze_frame_def Let_def split: if_splits sum.splits)
qed

lemma apply_ops_extends:
  "apply_ops env b ops = (Inr u, b') \<Longrightarrow>
     \<exists>es. timeline_clips b' = timeline_clips b @ es \<and> length es = length ops"
proof (induction ops arbitrary: b)
  case Nil
  then show ?case by simp
next
  case (Cons x xs)
  from Cons.prems obtain v b1 where s1: "apply_op env b x = (Inr v, b1)"
    and rest: "apply_ops env b1 xs = (Inr u, b')"
    by (auto split: prod.splits sum.splits)
  from apply_op_appends [OF s1] obtain c where "timeline_clips b1 = timeline_clips b @ [c]"
    by auto
  moreover from Cons.IH [OF rest] obtain es where
    "timeline_clips b' = timeline_clips b1 @ es" "length es = length xs" by blast
  ultimately show ?case by simp
qed

lemma apply_ops_prefix:
  "apply_ops env b ops = (Inr u, b') \<Longrightarrow> i < length ops \<Longrightarrow>
     \<exists>bi c. apply_ops env b (take i ops) = (Inr (), bi)
       \<and> apply_op env bi (ops ! i) = (Inr (), bi\<lparr>timeline_clips := timeline_clips bi @ [c]\<rparr>)
       \<and> timeline_clips b' ! (length (timeline_clips b) + i) = c"
proof (induction ops arbitrary: b i)
  case Nil
  then show ?case by simp
next
  case (Cons x xs)
  from Cons.prems obtain v b1 where s1: "apply_op env b x = (Inr v, b1)"
    and rest: "apply_ops env b1 xs = (Inr u, b')"
    by (auto split: prod.splits sum.splits)
  from apply_op_appends [OF s1] obtain c where b1: "b1 = b\<lparr>timeline_clips := timeline_clips b @ [c]\<rparr>"
    by auto
  show ?case
  proof (cases i)
    case 0
    from apply_ops_extends [OF rest] obtain es where "timeline_clips b' = timeline_clips b1 @ es"
      by blast
    with b1 have "timeline_clips b' ! (length (timeline_clips b)) = c"
      by (simp add: nth_append)
    with 0 s1 b1 show ?thesis by simp
  next
    case (Suc j)
    with Cons.prems have "j < length xs" by simp
    from Cons.IH [OF rest this] obtain bi c' where
      "apply_ops env b1 (take j xs) = (Inr (), bi)"
      "apply_op env bi (xs ! j) = (Inr (), bi\<lparr>timeline_clips := timeline_clips bi @ [c']\<rparr>)"
      "timeline_clips b' ! (length (timeline_clips b1) + j) = c'" by blast
    with Suc s1 b1 show ?thesis by simp
  qed
qed

lemma entry_start_Suc:
  assumes "i < length cs"
  shows "entry_start cs (Suc i) = entry_start cs i + clip_duration (cs ! i)"
  using assms by (simp add: entry_start_def take_Suc_conv_app_nth)

lemma render_writes_timeline:
  assumes "timeline_clips b \<noteq> []"
  shows "render env b w = write_videofile env (final_video b) (output_path b) (fps b) w
       \<and> final_video b =
           (if has_audio (final_timeline b)
            then set_audio_of
                   (CompositeVideoClip (final_timeline b # overlay_clips b) (canvas_size b))
                   (final_timeline b)
            else CompositeVideoClip (final_timeline b # overlay_clips b) (canvas_size b))"
  using assms by (simp add: render_def final_video_def Let_def)

text \<open>
  Claim C2. Take any script of appends (\<^verbatim>\<open>add_text_screen\<close>, \<^verbatim>\<open>add_clip\<close>,
  \<^verbatim>\<open>add_freeze_frame\<close>) that runs to its end on a builder with an empty timeline. The
  timeline then holds one entry for each call, the i-th entry being the clip that the
  i-th call appended to the builder as the calls before it left it. \<^verbatim>\<open>render\<close>
  concatenates exactly this list, in this order, as the bottom layer of the video it
  writes: the first entry starts at 0, each entry starts where the one before it ends,
  and the concatenation lasts the sum of the durations of the entries.
\<close>

theorem timeline_append_order_and_duration:
  assumes start: "timeline_clips b0 = []"
    and run: "apply_ops env b0 ops = (Inr (), b)"
  shows "length (timeline_clips b) = length ops
       \<and> (\<forall>i<length ops. \<exists>bi c.
             apply_ops env b0 (take i ops) = (Inr (), bi)
           \<and> apply_op env bi (ops ! i) = (Inr (), bi\<lparr>timeline_clips := timeline_clips bi @ [c]\<rparr>)
           \<and> timeline_clips b ! i = c
           \<and> entry_start (timeline_clips b) (Suc i) =
               entry_start (timeline_clips b) i + clip_duration c)
       \<and> entry_start (timeline_clips b) 0 = 0
       \<and> entry_start (timeline_clips b) (length ops) = clip_duration (final_timeline b)
       \<and> final_timeline b = concatenate_videoclips (timeline_clips b)
       \<and> clip_duration (final_timeline b) = sum_list (map clip_duration (timeline_clips b))
       \<and> (ops \<noteq> [] \<longrightarrow>
            render env b w = write_videofile env (final_video b) (output_path b) (fps b) w
             \<and> final_video b =
                 (if has_audio (final_timeline b)
                  then set_audio_of
                         (CompositeVideoClip (final_timeline b # overlay_clips b) (canvas_size b))
                         (final_timeline b)
                  else CompositeVideoClip (final_timeline b # overlay_clips b) (canvas_size b)))"
proof -
  from apply_ops_extends [OF run] start have len: "length (timeline_clips b) = length ops"
    by auto
  have order: "\<forall>i<length ops. \<exists>bi c.
             apply_ops env b0 (take i ops) = (Inr (), bi)
           \<and> apply_op env bi (ops ! i) = (Inr (), bi\<lparr>timeline_clips := timeline_clips bi @ [c]\<rparr>)
           \<and> timeline_clips b ! i = c
           \<and> entry_start (timeline_clips b) (Suc i) =
               entry_start (timeline_clips b) i + clip_duration c"
  proof (intro allI impI)
    fix i assume i: "i < length ops"
    from apply_ops_prefix [OF run i] start obtain bi c where
      "apply_ops env b0 (take i ops) = (Inr (), bi)"
      "apply_op env bi (ops ! i) = (Inr (), bi\<lparr>timeline_clips := timeline_clips bi @ [c]\<rparr>)"
      "timeline_clips b ! i = c" by auto
    moreover from i len have "entry_start (timeline_clips b) (Suc i) =
        entry_start (timeline_clips b) i + clip_duration (timeline_clips b ! i)"
      by (simp add: entry_start_Suc)
    ultimately show "\<exists>bi c.
             apply_ops env b0 (take i ops) = (Inr (), bi)
           \<and> apply_op env bi (ops ! i) = (Inr (), bi\<lparr>timeline_clips := timeline_clips bi @ [c]\<rparr>)
           \<and> timeline_clips b ! i = c
           \<and> entry_start (timeline_clips b) (Suc i) =
               entry_start (timeline_clips b) i + clip_duration c"
      by blast
  qed
  have z: "entry_start (timeline_clips b) 0 = 0" by (simp add: entry_start_def)
  have total: "entry_start (timeline_clips b) (length ops) = clip_duration (final_timeline b)"
    using len by (simp add: entry_start_def final_timeline_def)
  have conc: "final_timeline b = concatenate_videoclips (timeline_clips b)"
    by (simp add: final_timeline_def)
  have dur: "clip_duration (final_timeline b) = sum_list (map clip_duration (timeline_clips b))"
    by (simp add: final_timeline_def)
  have rend: "ops \<noteq> [] \<longrightarrow>
            render env b w = write_videofile env (final_video b) (output_path b) (fps b) w
             \<and> final_video b =
                 (if has_audio (final_timeline b)
                  then set_audio_of
                         (CompositeVideoClip (final_timeline b # overlay_clips b) (canvas_size b))
                         (final_timeline b)
                  else CompositeVideoClip (final_timeline b # overlay_clips b) (canvas_size b))"
  proof
    assume "ops \<noteq> []"
    with len have "timeline_clips b \<noteq> []" by auto
    then show "render env b w = write_videofile env (final_video b) (output_path b) (fps b) w
             \<and> final_video b =
                 (if has_audio (final_timeline b)
                  then set_audio_of
                         (CompositeVideoClip (final_timeline b # overlay_clips b) (canvas_size b))
                         (final_timeline b)
                  else CompositeVideoClip (final_timeline b # overlay_clips b) (canvas_size b))"
      by (rule render_writes_timeline)
  qed
  from len order z total conc dur rend show ?thesis by (intro conjI)
qed

theorem timeline_append_order_and_duration_witness:
  "timeline_clips sample_builder = []
   \<and> fst (apply_ops sample_env sample_builder sample_ops) = Inr ()
   \<and> length (timeline_clips (snd (apply_ops sample_env sample_builder sample_ops))) = 3
   \<and> map clip_duration (timeline_clips (snd (apply_ops sample_env sample_builder sample_ops))) =
       [2, 5, 3]
   \<and> clip_duration (final_timeline (snd (apply_ops sample_env sample_builder sample_ops))) = 10"
proof -
  have e: "timeline_clips sample_builder = []"
    by (simp add: sample_builder_def VideoBuilder_init_def)
  have ok: "fst (apply_ops sample_env sample_builder sample_ops) = Inr ()"
    by code_simp
  then have run: "apply_ops sample_env sample_builder sample_ops =
      (Inr (), snd (apply_ops sample_env sample_builder sample_ops))"
    by (simp add: prod_eq_iff)
  have d: "map clip_duration
      (timeline_clips (snd (apply_ops sample_env sample_builder sample_ops))) = [2, 5, 3]"
    by code_simp
  from timeline_append_order_and_duration [OF e run] e ok d show ?thesis
    by (simp add: sample_ops_def)
qed

subsection \<open>The command line\<close>

lemma length_four:
  assumes "length xs = 4"
  shows "\<exists>a b c d. xs = [a, b, c, d]"
  using assms by (auto simp: length_Suc_conv eval_nat_numeral)

lemma parse_arrow_rejects:
  assumes "\<not> four_integers s"
  shows "\<exists>m. parse_arrow s = Inl (ValueError m)"
proof (cases "length (map py_strip (py_split CHR '','' s)) = 4")
  case False
  then show ?thesis by (simp add: parse_arrow_def Let_def)
next
  case True
  from length_four [OF this]
  obtain p1 p2 p3 p4 where ps: "map py_strip (py_split CHR '','' s) = [p1, p2, p3, p4]"
    by (elim exE)
  with assms have "py_int p1 = None \<or> py_int p2 = None \<or> py_int p3 = None \<or> py_int p4 = None"
    by (auto simp: four_integers_def Let_def)
  with ps show ?thesis
    by (auto simp: parse_arrow_def Let_def split: option.splits)
qed

lemma parse_arrow_accepts:
  assumes "four_integers s"
  shows "\<exists>p q. parse_arrow s = Inr (p, q)"
proof -
  from assms have "length (map py_strip (py_split CHR '','' s)) = 4"
    by (simp add: four_integers_def Let_def)
  from length_four [OF this]
  obtain p1 p2 p3 p4 where ps: "map py_strip (py_split CHR '','' s) = [p1, p2, p3, p4]"
    by (elim exE)
  with assms show ?thesis
    by (auto simp: four_integers_def parse_arrow_def Let_def)
qed

lemma arrow_clip_size: "clip_size (Arrow_as_clip env ar d sz) = sz"
  by (simp add: Arrow_as_clip_def pil_rgba_to_imageclip_def Image_new_def draw_def Let_def)

lemma add_overlay_arrow:
  "add_overlay env b (ArrowObj ar) st d pos =
     (Inr (), b\<lparr>overlay_clips := overlay_clips b @
        [set_position (set_start (Arrow_as_clip env ar d (canvas_size b)) st) pos]\<rparr>)"
  by (simp add: add_overlay_def)

text \<open>
  Claim C8, as the code has it. The arrow argument is parsed only when \<^verbatim>\<open>--arrow\<close> is not
  empty and \<^verbatim>\<open>--arrow-start\<close> is given, and only after the title, clip, freeze frame and
  text overlay blocks have run. In that case an argument that is not four integers ends
  the run with an exception before \<^verbatim>\<open>render\<close>: nothing is written or printed; when the
  blocks before raised nothing the exception is the \<^verbatim>\<open>ValueError\<close> of \<^verbatim>\<open>parse_arrow\<close>, and
  the builder is as those blocks left it.
\<close>

theorem main_malformed_arrow:
  assumes arrow: "arg_arrow a = Some s" and nonempty: "s \<noteq> []"
    and start: "arg_arrow_start a = Some t"
    and bad: "\<not> four_integers s"
  shows "(\<exists>e. fst (main env a w) = Inl e)
       \<and> snd (snd (main env a w)) = w
       \<and> (fst (before_arrow env a) = Inr () \<longrightarrow>
            (\<exists>m. fst (main env a w) = Inl (ValueError m))
          \<and> fst (snd (main env a w)) = snd (before_arrow env a))"
proof -
  from parse_arrow_rejects [OF bad] obtain m where m: "parse_arrow s = Inl (ValueError m)" ..
  have step: "step_arrow_overlay env a b = (Inl (ValueError m), b)" for b
    using arrow nonempty start m by (simp add: step_arrow_overlay_def truthy_def)
  show ?thesis
  proof (cases "fst (before_arrow env a)")
    case (Inl e)
    then show ?thesis by (simp add: main_def then_step_def)
  next
    case (Inr u)
    then show ?thesis by (simp add: main_def then_step_def step)
  qed
qed

theorem main_malformed_arrow_witness:
  "arg_arrow sample_bad_arrow_args = Some ''1,2,3''
   \<and> arg_arrow_start sample_bad_arrow_args = Some 1
   \<and> \<not> four_integers ''1,2,3''
   \<and> fst (main sample_env sample_bad_arrow_args sample_world) =
       Inl (ValueError ''--arrow must be in the form x1,y1,x2,y2'')
   \<and> snd (snd (main sample_env sample_bad_arrow_args sample_world)) = sample_world"
proof -
  have a: "arg_arrow sample_bad_arrow_args = Some ''1,2,3''"
    by (simp add: sample_bad_arrow_args_def sample_args_def)
  have n: "''1,2,3'' \<noteq> []" by simp
  have t: "arg_arrow_start sample_bad_arrow_args = Some 1"
    by (simp add: sample_bad_arrow_args_def)
  have bad: "\<not> four_integers ''1,2,3''" by code_simp
  have e: "fst (main sample_env sample_bad_arrow_args sample_world) =
      Inl (ValueError ''--arrow must be in the form x1,y1,x2,y2'')"
    by code_simp
  from main_malformed_arrow [OF a n t bad, of sample_env sample_world] a t bad e
  show ?thesis by simp
qed

text \<open>
  Claim C8 as stated fails twice. With \<^verbatim>\<open>--arrow 1,2,3\<close> and no \<^verbatim>\<open>--arrow-start\<close> the run
  raises nothing and writes the output file. With \<^verbatim>\<open>--arrow-start\<close> the run does end with
  the parse error, but the title screen is on the timeline by then.
\<close>

theorem main_malformed_arrow_counterexample:
  "\<not> four_integers ''1,2,3''
   \<and> arg_arrow sample_args = Some ''1,2,3''
   \<and> fst (main sample_env sample_args sample_world) = Inr ()
   \<and> map fst (files (snd (snd (main sample_env sample_args sample_world)))) = [''output.mp4'']
   \<and> arg_arrow sample_bad_arrow_args = Some ''1,2,3''
   \<and> fst (main sample_env sample_bad_arrow_args sample_world) =
       Inl (ValueError ''--arrow must be in the form x1,y1,x2,y2'')
   \<and> length (timeline_clips (fst (snd (main sample_env sample_bad_arrow_args sample_world)))) = 1"
proof -
  have "\<not> four_integers ''1,2,3''" by code_simp
  moreover have "arg_arrow sample_args = Some ''1,2,3''" by (simp add: sample_args_def)
  moreover have "fst (main sample_env sample_args sample_world) = Inr ()" by code_simp
  moreover have "map fst (files (snd (snd (main sample_env sample_args sample_world)))) =
      [''output.mp4'']" by code_simp
  moreover have "arg_arrow sample_bad_arrow_args = Some ''1,2,3''"
    by (simp add: sample_bad_arrow_args_def sample_args_def)
  moreover have "fst (main sample_env sample_bad_arrow_args sample_world) =
      Inl (ValueError ''--arrow must be in the form x1,y1,x2,y2'')" by code_simp
  moreover have "length (timeline_clips
      (fst (snd (main sample_env sample_bad_arrow_args sample_world)))) = 1" by code_simp
  ultimately show ?thesis by simp
qed

text \<open>
  Claim C9, as the code has it. \<^verbatim>\<open>main\<close> adds its arrow overlay with the position (0, 0),
  whatever \<^verbatim>\<open>--overlay-position\<close> says; the arrow image has the size of the canvas, so the
  overlay is drawn at offset (0, 0) and the arrow appears at the canvas coordinates of
  its points. \<^verbatim>\<open>add_overlay\<close> itself forces nothing: for an arrow too it records the
  position it is given.
\<close>

theorem main_arrow_position:
  assumes arrow: "arg_arrow a = Some s" and nonempty: "s \<noteq> []"
    and start: "arg_arrow_start a = Some t"
    and parsed: "parse_arrow s = Inr (p, q)"
    and before: "before_arrow env a = (Inr (), b)"
    and ov: "ov = set_position
                    (set_start
                       (Arrow_as_clip env
                          (Arrow_init p q (Named (arg_arrow_color a)) (arg_arrow_width a))
                          (arg_arrow_duration a) (canvas_size b)) t)
                    (PosPair (AxisInt 0) (AxisInt 0))"
  shows "fst (snd (main env a w)) = b\<lparr>overlay_clips := overlay_clips b @ [ov]\<rparr>
       \<and> clip_pos ov = PosPair (AxisInt 0) (AxisInt 0)
       \<and> clip_size ov = canvas_size b
       \<and> layer_offset (canvas_size b) ov = Some (0, 0)
       \<and> add_overlay env b (ArrowObj ar) st d pos =
           (Inr (), b\<lparr>overlay_clips := overlay_clips b @
              [set_position (set_start (Arrow_as_clip env ar d (canvas_size b)) st) pos]\<rparr>)"
proof -
  have step: "step_arrow_overlay env a b = (Inr (), b\<lparr>overlay_clips := overlay_clips b @ [ov]\<rparr>)"
    using arrow nonempty start parsed
    by (simp add: step_arrow_overlay_def truthy_def add_overlay_arrow ov)
  have "fst (snd (main env a w)) = b\<lparr>overlay_clips := overlay_clips b @ [ov]\<rparr>"
    by (simp add: main_def then_step_def before step Let_def split: prod.splits sum.splits)
  moreover have "clip_pos ov = PosPair (AxisInt 0) (AxisInt 0)" by (simp add: ov)
  moreover have "clip_size ov = canvas_size b" by (simp add: ov arrow_clip_size)
  moreover have "layer_offset (canvas_size b) ov = Some (0, 0)"
    by (simp add: ov layer_offset_def resolve_position_def resolve_axis_def)
  ultimately show ?thesis by (simp add: add_overlay_arrow)
qed

theorem main_arrow_position_witness:
  "parse_position (arg_overlay_position sample_arrow_args) = PosPair (AxisInt 100) (AxisInt 100)
   \<and> map clip_pos (overlay_clips (fst (snd (main sample_env sample_arrow_args sample_world)))) =
       [PosPair (AxisInt 0) (AxisInt 0)]
   \<and> map (layer_offset (1920, 1080))
        (overlay_clips (fst (snd (main sample_env sample_arrow_args sample_world)))) =
       [Some (0, 0)]"
proof -
  let ?b = "snd (before_arrow sample_env sample_arrow_args)"
  have a: "arg_arrow sample_arrow_args = Some ''10,20,300,400''"
    by (simp add: sample_arrow_args_def)
  have n: "''10,20,300,400'' \<noteq> []" by simp
  have t: "arg_arrow_start sample_arrow_args = Some 1"
    by (simp add: sample_arrow_args_def)
  have parsed: "parse_arrow ''10,20,300,400'' = Inr ((10, 20), (300, 400))" by code_simp
  have "fst (before_arrow sample_env sample_arrow_args) = Inr ()" by code_simp
  then have before: "before_arrow sample_env sample_arrow_args = (Inr (), ?b)"
    by (simp add: prod_eq_iff)
  have o: "overlay_clips ?b = []" by code_simp
  have c: "canvas_size ?b = (1920, 1080)" by code_simp
  have p: "parse_position (arg_overlay_position sample_arrow_args) =
      PosPair (AxisInt 100) (AxisInt 100)" by code_simp
  from main_arrow_position [OF a n t parsed before refl, of sample_world] o c p
  show ?thesis by simp
qed

text \<open>
  Claim C9 as stated fails on \<^verbatim>\<open>add_overlay\<close>: an arrow added at position (50, 60) keeps
  that position and is drawn 50 pixels to the right of and 60 pixels below its
  coordinates.
\<close>

theorem add_overlay_arrow_position_counterexample:
  "map clip_pos (overlay_clips (snd (add_overlay sample_env sample_builder
         (ArrowObj (Arrow_init (0, 0) (100, 0) (Named ''yellow'') 5)) 1 4
         (PosPair (AxisInt 50) (AxisInt 60))))) = [PosPair (AxisInt 50) (AxisInt 60)]
   \<and> map (layer_offset (1920, 1080)) (overlay_clips (snd (add_overlay sample_env sample_builder
         (ArrowObj (Arrow_init (0, 0) (100, 0) (Named ''yellow'') 5)) 1 4
         (PosPair (AxisInt 50) (AxisInt 60))))) = [Some (50, 60)]"
proof -
  have "map clip_pos (overlay_clips (snd (add_overlay sample_env sample_builder
         (ArrowObj (Arrow_init (0, 0) (100, 0) (Named ''yellow'') 5)) 1 4
         (PosPair (AxisInt 50) (AxisInt 60))))) = [PosPair (AxisInt 50) (AxisInt 60)]"
    by code_simp
  moreover have "map (layer_offset (1920, 1080)) (overlay_clips (snd (add_overlay sample_env
         sample_builder (ArrowObj (Arrow_init (0, 0) (100, 0) (Named ''yellow'') 5)) 1 4
         (PosPair (AxisInt 50) (AxisInt 60))))) = [Some (50, 60)]"
    by code_simp
  ultimately show ?thesis by simp
qed

end
